theory Spec2Isabelle
  imports Complex_Main "HOL-Library.Sublist" "HOL-Library.Multiset"
begin

section \<open>Keyword Research Platform: the KeywordResearcher class\<close>

text \<open>
  A shallow embedding of \<^verbatim>\<open>src/keyword_research.py\<close>: the class
  \<^verbatim>\<open>KeywordResearcher\<close> (the mock keyword store, search, analysis and its helpers)
  and the \<^verbatim>\<open>/search\<close> route handler.

  Conventions of the model.
  \<^item> Python \<^verbatim>\<open>int\<close> is \<open>int\<close>. Python \<^verbatim>\<open>float\<close> is \<open>rat\<close>: arithmetic is exact, the
    rounding error of binary floating point is not modelled.
  \<^item> Python \<^verbatim>\<open>str\<close> is \<open>string\<close>, read as ASCII text: the case mappings and the
    whitespace test below are those of Python on code points below 128 and leave every
    other character alone.
  \<^item> The module \<^verbatim>\<open>random\<close> is a stream of raw draws that every call consumes from;
    each library function maps a raw draw into the range its documentation promises.
\<close>

subsection \<open>Strings: the methods of \<^verbatim>\<open>str\<close> that the code calls\<close>

definition ascii_uppercase :: string where
  "ascii_uppercase = ''ABCDEFGHIJKLMNOPQRSTUVWXYZ''"

definition ascii_lowercase :: string where
  "ascii_lowercase = ''abcdefghijklmnopqrstuvwxyz''"

definition is_upper :: "char \<Rightarrow> bool" where
  "is_upper c = (c \<in> set ascii_uppercase)"

definition is_lower :: "char \<Rightarrow> bool" where
  "is_lower c = (c \<in> set ascii_lowercase)"

definition is_cased :: "char \<Rightarrow> bool" where
  "is_cased c = (is_upper c \<or> is_lower c)"

definition lower_char :: "char \<Rightarrow> char" where
  "lower_char c = (case map_of (zip ascii_uppercase ascii_lowercase) c of Some l \<Rightarrow> l | None \<Rightarrow> c)"

definition upper_char :: "char \<Rightarrow> char" where
  "upper_char c = (case map_of (zip ascii_lowercase ascii_uppercase) c of Some u \<Rightarrow> u | None \<Rightarrow> c)"

text \<open>\<^verbatim>\<open>str.isspace\<close> on ASCII: tab, line feed, vertical tab, form feed, carriage
  return, the four separators 28 to 31, and the space.\<close>

definition is_space :: "char \<Rightarrow> bool" where
  "is_space c = (c \<in> set [CHR 0x09, CHR 0x0A, CHR 0x0B, CHR 0x0C, CHR 0x0D,
                            CHR 0x1C, CHR 0x1D, CHR 0x1E, CHR 0x1F, CHR '' ''])"

text \<open>\<^verbatim>\<open>s.lower()\<close>\<close>

definition lower :: "string \<Rightarrow> string" where
  "lower s = map lower_char s"

text \<open>\<^verbatim>\<open>s.title()\<close>: a character that follows a cased character is lowercased, any
  other character is uppercased.\<close>

fun title_from :: "bool \<Rightarrow> string \<Rightarrow> string" where
  "title_from previous_is_cased [] = []"
| "title_from previous_is_cased (c # cs) =
     (if previous_is_cased then lower_char c else upper_char c) # title_from (is_cased c) cs"

definition title :: "string \<Rightarrow> string" where
  "title s = title_from False s"

text \<open>\<^verbatim>\<open>s.split()\<close> with no separator: the maximal runs of non-whitespace characters,
  in order. The first argument is the run being read.\<close>

fun split_from :: "string \<Rightarrow> string \<Rightarrow> string list" where
  "split_from cur [] = (if cur = [] then [] else [cur])"
| "split_from cur (c # cs) =
     (if is_space c then (if cur = [] then split_from [] cs else cur # split_from [] cs)
      else split_from (cur @ [c]) cs)"

definition split :: "string \<Rightarrow> string list" where
  "split s = split_from [] s"

text \<open>\<^verbatim>\<open>needle in haystack\<close> on strings: the needle starts at some position.\<close>

fun contains :: "string \<Rightarrow> string \<Rightarrow> bool" where
  "contains [] needle = (needle = [])"
| "contains (c # cs) needle = (prefix needle (c # cs) \<or> contains cs needle)"

text \<open>\<^verbatim>\<open>s.replace(old, new)\<close> for one-character \<^verbatim>\<open>old\<close> and \<^verbatim>\<open>new\<close>.\<close>

definition replace :: "string \<Rightarrow> char \<Rightarrow> char \<Rightarrow> string" where
  "replace s old new = map (\<lambda>c. if c = old then new else c) s"

subsection \<open>Numbers and lists: \<^verbatim>\<open>round\<close>, slices, \<^verbatim>\<open>sort\<close>\<close>

text \<open>\<^verbatim>\<open>round(x, ndigits)\<close>: to the nearest multiple of \<open>10 ^ -ndigits\<close>, a tie to the
  even one.\<close>

definition round_half_even :: "rat \<Rightarrow> int" where
  "round_half_even y =
     (let f = \<lfloor>y\<rfloor>; d = y - of_int f
      in if d < 1 / 2 then f else if 1 / 2 < d then f + 1 else if even f then f else f + 1)"

definition py_round :: "rat \<Rightarrow> nat \<Rightarrow> rat" where
  "py_round x ndigits = of_int (round_half_even (x * 10 ^ ndigits)) / 10 ^ ndigits"

text \<open>\<^verbatim>\<open>xs[:stop]\<close>: a negative \<^verbatim>\<open>stop\<close> counts from the end.\<close>

definition slice_to :: "'a list \<Rightarrow> int \<Rightarrow> 'a list" where
  "slice_to xs stop =
     (if 0 \<le> stop then take (nat stop) xs else take (nat (int (length xs) + stop)) xs)"

text \<open>\<^verbatim>\<open>xs.sort(key=key, reverse=True)\<close> and \<^verbatim>\<open>sorted(xs, key=key, reverse=True)\<close>:
  descending by key, elements of equal key in their original order.\<close>

definition sort_reverse :: "('a \<Rightarrow> int) \<Rightarrow> 'a list \<Rightarrow> 'a list" where
  "sort_reverse key xs = sort_key (\<lambda>x. - key x) xs"

subsection \<open>The module \<^verbatim>\<open>random\<close>\<close>

text \<open>The generator: the raw draws still to come. A draw is any integer; the functions
  below reduce it into their range.\<close>

type_synonym rng = "nat \<Rightarrow> int"

datatype py_error = ValueError | AttributeError

definition next_raw :: "rng \<Rightarrow> int \<times> rng" where
  "next_raw g = (g 0, \<lambda>n. g (Suc n))"

text \<open>\<^verbatim>\<open>_randbelow(n)\<close> for \<open>0 < n\<close>: a number in \<open>{0..<n}\<close>.\<close>

definition randbelow :: "int \<Rightarrow> rng \<Rightarrow> int \<times> rng" where
  "randbelow n g = (let (r, g') = next_raw g in (r mod n, g'))"

text \<open>\<^verbatim>\<open>random.randint(a, b)\<close> for \<open>a \<le> b\<close> (every call of the source passes literals):
  \<^verbatim>\<open>a + _randbelow(b - a + 1)\<close>.\<close>

definition randint :: "int \<Rightarrow> int \<Rightarrow> rng \<Rightarrow> int \<times> rng" where
  "randint a b g = (let (r, g') = randbelow (b - a + 1) g in (a + r, g'))"

text \<open>\<^verbatim>\<open>random.random()\<close>: a multiple of \<open>2 ^ -53\<close> in \<open>[0, 1)\<close>.\<close>

definition random_random :: "rng \<Rightarrow> rat \<times> rng" where
  "random_random g = (let (r, g') = randbelow (2 ^ 53) g in (of_int r / 2 ^ 53, g'))"

text \<open>\<^verbatim>\<open>random.uniform(a, b)\<close>: \<^verbatim>\<open>a + (b - a) * random()\<close>.\<close>

definition uniform :: "rat \<Rightarrow> rat \<Rightarrow> rng \<Rightarrow> rat \<times> rng" where
  "uniform a b g = (let (u, g') = random_random g in (a + (b - a) * u, g'))"

text \<open>\<^verbatim>\<open>random.choice(seq)\<close> for a non-empty \<^verbatim>\<open>seq\<close> (every call of the source passes
  a literal of three items): \<^verbatim>\<open>seq[_randbelow(len(seq))]\<close>.\<close>

definition choice :: "'a list \<Rightarrow> rng \<Rightarrow> 'a \<times> rng" where
  "choice seq g = (let (i, g') = randbelow (int (length seq)) g in (seq ! nat i, g'))"

text \<open>\<^verbatim>\<open>random.sample(population, k)\<close>, the branch CPython takes for a population of at
  most 21 items: \<open>k\<close> rounds over a copy \<^verbatim>\<open>pool\<close> of the population; round \<open>i\<close> draws
  \<^verbatim>\<open>j = _randbelow(n - i)\<close>, outputs \<^verbatim>\<open>pool[j]\<close> and overwrites it with
  \<^verbatim>\<open>pool[n - i - 1]\<close>. The second argument of the loop is \<open>n - i\<close>.
  A \<open>k\<close> outside \<open>0..n\<close> raises \<^verbatim>\<open>ValueError\<close>.\<close>

fun sample_loop :: "'a list \<Rightarrow> nat \<Rightarrow> nat \<Rightarrow> rng \<Rightarrow> 'a list \<times> rng" where
  "sample_loop pool m 0 g = ([], g)"
| "sample_loop pool m (Suc k) g =
     (let (j, g1) = randbelow (int m) g;
          x = pool ! nat j;
          (rest, g2) = sample_loop (pool[nat j := pool ! (m - 1)]) (m - 1) k g1
      in (x # rest, g2))"

definition sample :: "'a list \<Rightarrow> int \<Rightarrow> rng \<Rightarrow> (py_error + 'a list) \<times> rng" where
  "sample population k g =
     (if 0 \<le> k \<and> k \<le> int (length population)
      then (let (result, g') = sample_loop population (length population) (nat k) g
            in (Inr result, g'))
      else (Inl ValueError, g))"

subsection \<open>The data\<close>

text \<open>One dictionary of \<^verbatim>\<open>keyword_database\<close>.\<close>

record keyword_record =
  keyword :: string
  search_volume :: int
  difficulty :: int
  cpc :: rat
  competition :: string
  trend :: string
  category :: string

text \<open>The dictionary \<^verbatim>\<open>analysis\<close>: the keys of \<^verbatim>\<open>kw_data\<close> and five more.\<close>

record analysis = keyword_record +
  opportunity_score :: rat
  related_keywords :: "keyword_record list"
  seasonal_trends :: "(string \<times> int) list"
  serp_features :: "string list"
  content_suggestions :: "string list"

text \<open>What the methods can read and write: the attribute \<^verbatim>\<open>keyword_database\<close> of the
  one \<^verbatim>\<open>researcher\<close> object, and the state of the module \<^verbatim>\<open>random\<close>.\<close>

record world =
  keyword_database :: "keyword_record list"
  random_state :: rng

subsection \<open>\<^verbatim>\<open>_generate_mock_keywords\<close> and the construction of \<^verbatim>\<open>researcher\<close>\<close>

definition base_keywords :: "string list" where
  "base_keywords =
     [''digital marketing'', ''seo optimization'', ''content marketing'', ''social media'',
      ''web development'', ''python programming'', ''data science'', ''machine learning'',
      ''artificial intelligence'', ''cloud computing'', ''cybersecurity'', ''blockchain'',
      ''e-commerce'', ''online business'', ''startup'', ''entrepreneurship'']"

definition variations :: "string \<Rightarrow> string list" where
  "variations base =
     [base @ '' tools'',
      base @ '' strategy'',
      base @ '' tips'',
      ''best '' @ base,
      base @ '' guide'',
      base @ '' course'',
      base @ '' services'',
      base @ '' agency'',
      ''how to '' @ base,
      base @ '' tutorial'']"

text \<open>The dictionary appended for one variation; its values are evaluated in the order
  they are written.\<close>

definition mock_keyword :: "string \<Rightarrow> string \<Rightarrow> rng \<Rightarrow> keyword_record \<times> rng" where
  "mock_keyword base variation g =
     (let (sv, g1) = randint 100 50000 g;
          (d, g2) = randint 1 100 g1;
          (u, g3) = uniform (1 / 2) 15 g2;
          (co, g4) = choice [''Low'', ''Medium'', ''High''] g3;
          (tr, g5) = choice [''Rising'', ''Stable'', ''Declining''] g4
      in (\<lparr>keyword = variation, search_volume = sv, difficulty = d, cpc = py_round u 2,
            competition = co, trend = tr, category = replace base CHR '' '' CHR ''_''\<rparr>, g5))"

text \<open>The inner loop, \<^verbatim>\<open>for variation in variations\<close>.\<close>

fun for_variation :: "string \<Rightarrow> string list \<Rightarrow> rng \<Rightarrow> keyword_record list \<times> rng" where
  "for_variation base [] g = ([], g)"
| "for_variation base (variation # rest) g =
     (let (kw, g1) = mock_keyword base variation g;
          (kws, g2) = for_variation base rest g1
      in (kw # kws, g2))"

text \<open>The outer loop, \<^verbatim>\<open>for base in base_keywords\<close>.\<close>

fun for_base :: "string list \<Rightarrow> rng \<Rightarrow> keyword_record list \<times> rng" where
  "for_base [] g = ([], g)"
| "for_base (base # rest) g =
     (let (kws1, g1) = for_variation base (variations base) g;
          (kws2, g2) = for_base rest g1
      in (kws1 @ kws2, g2))"

definition generate_mock_keywords :: "rng \<Rightarrow> keyword_record list \<times> rng" where
  "generate_mock_keywords g = for_base base_keywords g"

text \<open>\<^verbatim>\<open>researcher = KeywordResearcher()\<close>, run once when the module is loaded.\<close>

definition init :: "rng \<Rightarrow> world" where
  "init g = (let (keywords, g') = generate_mock_keywords g
            in \<lparr>keyword_database = keywords, random_state = g'\<rparr>)"

subsection \<open>\<^verbatim>\<open>search_keywords\<close>\<close>

definition search_keywords :: "world \<Rightarrow> string \<Rightarrow> int \<Rightarrow> keyword_record list \<times> world" where
  "search_keywords w seed_keyword limit =
     (let results = filter (\<lambda>kw. contains (lower (keyword kw)) (lower seed_keyword))
                      (keyword_database w);
          results = sort_reverse search_volume results
      in (slice_to results limit, w))"

subsection \<open>\<^verbatim>\<open>analyze_keyword\<close> and its helpers\<close>

definition volume_score :: "'a keyword_record_scheme \<Rightarrow> rat" where
  "volume_score kw_data = min (of_int (search_volume kw_data) / 1000) 50"

definition difficulty_score :: "'a keyword_record_scheme \<Rightarrow> int" where
  "difficulty_score kw_data = 100 - difficulty kw_data"

definition cpc_score :: "'a keyword_record_scheme \<Rightarrow> rat" where
  "cpc_score kw_data = min (cpc kw_data * 5) 30"

definition calculate_opportunity_score :: "'a keyword_record_scheme \<Rightarrow> rat" where
  "calculate_opportunity_score kw_data =
     py_round ((volume_score kw_data + of_int (difficulty_score kw_data) + cpc_score kw_data) / 3) 1"

definition get_related_keywords :: "world \<Rightarrow> string \<Rightarrow> keyword_record list" where
  "get_related_keywords w kw_text =
     (let words = split kw_text;
          related = filter (\<lambda>kw. list_ex (\<lambda>word. contains (keyword kw) word) words
                                  \<and> keyword kw \<noteq> kw_text)
                      (keyword_database w)
      in slice_to (sort_reverse search_volume related) 10)"

definition months :: "string list" where
  "months = [''Jan'', ''Feb'', ''Mar'', ''Apr'', ''May'', ''Jun'',
             ''Jul'', ''Aug'', ''Sep'', ''Oct'', ''Nov'', ''Dec'']"

text \<open>The list comprehension over \<^verbatim>\<open>months\<close>: one pair of \<^verbatim>\<open>month\<close> and \<^verbatim>\<open>volume\<close>
  each.\<close>

fun for_month :: "string list \<Rightarrow> rng \<Rightarrow> (string \<times> int) list \<times> rng" where
  "for_month [] g = ([], g)"
| "for_month (month # rest) g =
     (let (v, g1) = randint 70 130 g;
          (entries, g2) = for_month rest g1
      in ((month, v) # entries, g2))"

definition generate_seasonal_data :: "rng \<Rightarrow> (string \<times> int) list \<times> rng" where
  "generate_seasonal_data g = for_month months g"

definition features :: "string list" where
  "features = [''Featured Snippets'', ''People Also Ask'', ''Local Pack'',
               ''Images'', ''Videos'', ''Shopping'', ''News'']"

definition get_serp_features :: "rng \<Rightarrow> (py_error + string list) \<times> rng" where
  "get_serp_features g = (let (k, g1) = randint 2 5 g in sample features k g1)"

definition get_content_suggestions :: "string \<Rightarrow> string list" where
  "get_content_suggestions kw_text =
     [''Ultimate Guide to '' @ title kw_text,
      ''Top 10 '' @ title kw_text @ '' Strategies'',
      ''How to Master '' @ title kw_text,
      title kw_text @ '': Best Practices'',
      ''Common '' @ title kw_text @ '' Mistakes to Avoid'']"

text \<open>The record made for a keyword that the database does not hold.\<close>

definition new_keyword :: "string \<Rightarrow> rng \<Rightarrow> keyword_record \<times> rng" where
  "new_keyword kw_text g =
     (let (sv, g1) = randint 100 10000 g;
          (d, g2) = randint 1 100 g1;
          (u, g3) = uniform (1 / 2) 10 g2;
          (co, g4) = choice [''Low'', ''Medium'', ''High''] g3;
          (tr, g5) = choice [''Rising'', ''Stable'', ''Declining''] g4
      in (\<lparr>keyword = kw_text, search_volume = sv, difficulty = d, cpc = py_round u 2,
            competition = co, trend = tr, category = ''general''\<rparr>, g5))"

text \<open>The first loop of \<^verbatim>\<open>analyze_keyword\<close> leaves in \<^verbatim>\<open>kw_data\<close> the first record
  whose lowercased keyword is the lowercased input, or \<^verbatim>\<open>None\<close>.\<close>

definition find_keyword :: "world \<Rightarrow> string \<Rightarrow> keyword_record option" where
  "find_keyword w kw_text = find (\<lambda>kw. lower (keyword kw) = lower kw_text) (keyword_database w)"

text \<open>A record is a non-empty dictionary, so \<^verbatim>\<open>not kw_data\<close> holds for \<^verbatim>\<open>None\<close> only:
  \<^verbatim>\<open>kw_data\<close> after the \<^verbatim>\<open>if\<close>, and the generator then.\<close>

definition resolve_keyword :: "world \<Rightarrow> string \<Rightarrow> keyword_record \<times> rng" where
  "resolve_keyword w kw_text =
     (case find_keyword w kw_text of
        Some kw \<Rightarrow> (kw, random_state w)
      | None \<Rightarrow> new_keyword kw_text (random_state w))"

definition analyze_keyword :: "world \<Rightarrow> string \<Rightarrow> (py_error + analysis) \<times> world" where
  "analyze_keyword w kw_text =
     (let (kw_data, g1) = resolve_keyword w kw_text;
          score = calculate_opportunity_score kw_data;
          related = get_related_keywords w kw_text;
          (seasonal, g2) = generate_seasonal_data g1;
          (serp, g3) = get_serp_features g2;
          suggestions = get_content_suggestions kw_text
      in (case serp of
            Inl e \<Rightarrow> (Inl e, w\<lparr>random_state := g3\<rparr>)
          | Inr serp_list \<Rightarrow>
              (Inr \<lparr>keyword = keyword kw_data, search_volume = search_volume kw_data,
                    difficulty = difficulty kw_data, cpc = cpc kw_data,
                    competition = competition kw_data, trend = trend kw_data,
                    category = category kw_data,
                    opportunity_score = score, related_keywords = related,
                    seasonal_trends = seasonal, serp_features = serp_list,
                    content_suggestions = suggestions\<rparr>,
               w\<lparr>random_state := g3\<rparr>)))"

subsection \<open>The route \<^verbatim>\<open>POST /search\<close>\<close>

text \<open>The value \<^verbatim>\<open>request.get_json()\<close> returns.\<close>

datatype json = JNull | JBool bool | JNumber rat | JString string | JArray "json list"
  | JObject "(string \<times> json) list"

text \<open>\<^verbatim>\<open>data.get(key, default)\<close>: only a dictionary has the method. The JSON parser keeps
  the last of several members of one name.\<close>

definition json_get :: "json \<Rightarrow> string \<Rightarrow> json \<Rightarrow> py_error + json" where
  "json_get data key dflt =
     (case data of
        JObject members \<Rightarrow>
          (case map_of (rev members) key of Some v \<Rightarrow> Inr v | None \<Rightarrow> Inr dflt)
      | _ \<Rightarrow> Inl AttributeError)"

text \<open>The handler calls \<^verbatim>\<open>researcher.search_keywords(seed_keyword)\<close>, so \<^verbatim>\<open>limit\<close> is
  its default 50. A seed that is not a string has no \<^verbatim>\<open>lower\<close>, which the loop finds
  out at the first record.\<close>

definition search_keywords_route :: "world \<Rightarrow> json \<Rightarrow> (py_error + keyword_record list) \<times> world" where
  "search_keywords_route w data =
     (case json_get data ''seed_keyword'' (JString '''') of
        Inl e \<Rightarrow> (Inl e, w)
      | Inr (JString seed_keyword) \<Rightarrow>
          (let (keywords, w') = search_keywords w seed_keyword 50 in (Inr keywords, w'))
      | Inr _ \<Rightarrow> (if keyword_database w = [] then (Inr [], w) else (Inl AttributeError, w)))"

subsection \<open>Sample inputs\<close>



text \<open>A generator, and a small world: five records, two of them with the same search
  volume, one in capitals.\<close>

definition sample_rng :: rng where
  "sample_rng = (\<lambda>n. int n * 7919 + 13)"

definition sample_database :: "keyword_record list" where
  "sample_database =
     [\<lparr>keyword = ''seo tips'', search_volume = 3000, difficulty = 35, cpc = 5 / 4,
       competition = ''Low'', trend = ''Stable'', category = ''seo''\<rparr>,
      \<lparr>keyword = ''SEO Tools'', search_volume = 9000, difficulty = 60, cpc = 7 / 2,
       competition = ''High'', trend = ''Rising'', category = ''seo''\<rparr>,
      \<lparr>keyword = ''best seo'', search_volume = 3000, difficulty = 50, cpc = 2,
       competition = ''Medium'', trend = ''Stable'', category = ''seo''\<rparr>,
      \<lparr>keyword = ''cloud computing'', search_volume = 20000, difficulty = 80, cpc = 9,
       competition = ''High'', trend = ''Rising'', category = ''cloud_computing''\<rparr>,
      \<lparr>keyword = ''marketing tips'', search_volume = 7000, difficulty = 20, cpc = 3 / 2,
       competition = ''Low'', trend = ''Declining'', category = ''marketing''\<rparr>]"

definition sample_world :: world where
  "sample_world = \<lparr>keyword_database = sample_database, random_state = sample_rng\<rparr>"

section \<open>Properties of the library functions\<close>

subsection \<open>Rounding\<close>

lemma round_half_even_ge: "of_int m \<le> y \<Longrightarrow> m \<le> round_half_even y"
proof -
  assume "of_int m \<le> y"
  then have "m \<le> \<lfloor>y\<rfloor>" by (simp add: le_floor_iff)
  then show ?thesis by (simp add: round_half_even_def Let_def)
qed

lemma round_half_even_le: "y \<le> of_int m \<Longrightarrow> round_half_even y \<le> m"
proof (cases "y = of_int m")
  case True
  then show ?thesis by (simp add: round_half_even_def Let_def)
next
  case False
  assume "y \<le> of_int m"
  with False have "y < of_int m" by simp
  then have "\<lfloor>y\<rfloor> < m" by (simp add: floor_less_iff)
  then show ?thesis by (simp add: round_half_even_def Let_def)
qed


lemma py_round_multiple: "\<exists>n::int. py_round x k = of_int n / 10 ^ k"
  by (auto simp add: py_round_def)


lemma py_round_bounds:
  assumes "of_int lo / 10 ^ k \<le> x" "x \<le> of_int hi / 10 ^ k"
  shows "of_int lo / 10 ^ k \<le> py_round x k \<and> py_round x k \<le> of_int hi / 10 ^ k"
proof -
  have "of_int lo \<le> x * 10 ^ k" using assms(1) by (simp add: pos_divide_le_eq)
  then have 1: "lo \<le> round_half_even (x * 10 ^ k)" by (rule round_half_even_ge)
  have "x * 10 ^ k \<le> of_int hi" using assms(2) by (simp add: pos_le_divide_eq)
  then have 2: "round_half_even (x * 10 ^ k) \<le> hi" by (rule round_half_even_le)
  from 1 2 show ?thesis by (simp add: py_round_def divide_right_mono)
qed

subsection \<open>The module \<^verbatim>\<open>random\<close>\<close>

lemma randbelow_range: "0 < n \<Longrightarrow> 0 \<le> fst (randbelow n g) \<and> fst (randbelow n g) < n"
  by (simp add: randbelow_def next_raw_def)

lemma randint_range: "a \<le> b \<Longrightarrow> a \<le> fst (randint a b g) \<and> fst (randint a b g) \<le> b"
  using randbelow_range [of "b - a + 1" g] by (simp add: randint_def case_prod_beta)

lemma random_random_range: "0 \<le> fst (random_random g) \<and> fst (random_random g) < 1"
  using randbelow_range [of "2 ^ 53" g] by (simp add: random_random_def case_prod_beta)

lemma uniform_range: "a \<le> b \<Longrightarrow> a \<le> fst (uniform a b g) \<and> fst (uniform a b g) \<le> b"
proof -
  assume ab: "a \<le> b"
  have u: "0 \<le> fst (random_random g)" "fst (random_random g) \<le> 1"
    using random_random_range [of g] by simp_all
  have "0 \<le> (b - a) * fst (random_random g)" using ab u by simp
  moreover have "(b - a) * fst (random_random g) \<le> (b - a) * 1"
    using ab u by (intro mult_left_mono) simp_all
  ultimately show ?thesis by (simp add: uniform_def case_prod_beta)
qed

lemma choice_mem: "seq \<noteq> [] \<Longrightarrow> fst (choice seq g) \<in> set seq"
proof -
  assume "seq \<noteq> []"
  then have "0 < int (length seq)" by simp
  then have "nat (fst (randbelow (int (length seq)) g)) < length seq"
    using randbelow_range [of "int (length seq)" g] by linarith
  then show ?thesis by (simp add: choice_def case_prod_beta)
qed

text \<open>Sampling without replacement: as many items as asked for, no item twice, all of
  them from the population.\<close>

lemma sample_step_mset:
  assumes "j < m" "m \<le> length pool"
  shows "add_mset (pool ! j) (mset (take (m - 1) (pool[j := pool ! (m - 1)]))) = mset (take m pool)"
proof -
  from assms have m: "m - 1 < length pool" "Suc (m - 1) = m" by simp_all
  have tk: "take m pool = take (m - 1) pool @ [pool ! (m - 1)]"
    using take_Suc_conv_app_nth [OF m(1)] m(2) by simp
  show ?thesis
  proof (cases "j = m - 1")
    case True
    then show ?thesis using tk by simp
  next
    case False
    with assms have j: "j < m - 1" by simp
    then have jl: "j < length (take (m - 1) pool)" using m(1) by simp
    have "take (m - 1) (pool[j := pool ! (m - 1)]) = (take (m - 1) pool)[j := pool ! (m - 1)]"
      using j by (simp add: take_update_swap)
    moreover have "(take (m - 1) pool) ! j = pool ! j" using j by simp
    moreover have "pool ! j \<in># mset (take (m - 1) pool)"
      using nth_mem [OF jl] j by simp
    ultimately show ?thesis using tk jl by (simp add: mset_update)
  qed
qed

lemma sample_loop_props:
  "k \<le> m \<Longrightarrow> m \<le> length pool \<Longrightarrow> distinct (take m pool) \<Longrightarrow>
   length (fst (sample_loop pool m k g)) = k \<and>
   distinct (fst (sample_loop pool m k g)) \<and>
   set (fst (sample_loop pool m k g)) \<subseteq> set (take m pool)"
proof (induction k arbitrary: pool m g)
  case 0
  then show ?case by simp
next
  case (Suc k)
  let ?j = "nat (fst (randbelow (int m) g))"
  let ?g1 = "snd (randbelow (int m) g)"
  let ?pool = "pool[?j := pool ! (m - 1)]"
  from Suc.prems have m: "0 < int m" by simp
  have j: "?j < m" using randbelow_range [OF m, of g] by linarith
  have ms: "add_mset (pool ! ?j) (mset (take (m - 1) ?pool)) = mset (take m pool)"
    using j Suc.prems(2) by (rule sample_step_mset)
  then have "mset (pool ! ?j # take (m - 1) ?pool) = mset (take m pool)" by simp
  then have d: "distinct (pool ! ?j # take (m - 1) ?pool)"
    and s: "set (pool ! ?j # take (m - 1) ?pool) = set (take m pool)"
    using Suc.prems(3) mset_eq_imp_distinct_iff mset_eq_setD by blast+
  have "k \<le> m - 1" "m - 1 \<le> length ?pool" using Suc.prems by simp_all
  moreover have "distinct (take (m - 1) ?pool)" using d by simp
  ultimately have IH: "length (fst (sample_loop ?pool (m - 1) k ?g1)) = k"
    "distinct (fst (sample_loop ?pool (m - 1) k ?g1))"
    "set (fst (sample_loop ?pool (m - 1) k ?g1)) \<subseteq> set (take (m - 1) ?pool)"
    using Suc.IH [of "m - 1" ?pool ?g1] by simp_all
  have res: "fst (sample_loop pool m (Suc k) g) = pool ! ?j # fst (sample_loop ?pool (m - 1) k ?g1)"
    by (simp add: case_prod_beta Let_def)
  show ?case using IH d s unfolding res by auto
qed

lemma sample_props:
  assumes "0 \<le> k" "k \<le> int (length population)" "distinct population"
  shows "\<exists>result. fst (sample population k g) = Inr result \<and> int (length result) = k \<and>
           distinct result \<and> set result \<subseteq> set population"
proof -
  have "nat k \<le> length population" using assms by simp
  then show ?thesis
    using sample_loop_props [of "nat k" "length population" population g] assms
    by (simp add: sample_def case_prod_beta)
qed

lemma get_serp_features_props:
  "\<exists>result. fst (get_serp_features g) = Inr result \<and> 2 \<le> length result \<and> length result \<le> 5 \<and>
     distinct result \<and> set result \<subseteq> set features"
proof -
  let ?k = "fst (randint 2 5 g)"
  have k: "2 \<le> ?k \<and> ?k \<le> 5" by (rule randint_range) simp
  have "distinct features" by (simp add: features_def)
  moreover have "length features = 7" by (simp add: features_def)
  ultimately obtain result where "fst (sample features ?k (snd (randint 2 5 g))) = Inr result"
    "int (length result) = ?k" "distinct result" "set result \<subseteq> set features"
    using sample_props [of ?k features "snd (randint 2 5 g)"] k by auto
  then show ?thesis using k by (auto simp add: get_serp_features_def case_prod_beta)
qed

subsection \<open>Strings\<close>

lemma contains_iff_sublist: "contains haystack needle \<longleftrightarrow> sublist needle haystack"
  by (induction haystack) (simp_all add: sublist_Cons_right)

lemma contains_iff: "contains haystack needle \<longleftrightarrow> (\<exists>ps ss. haystack = ps @ needle @ ss)"
  by (simp add: contains_iff_sublist sublist_def)

lemma contains_empty: "contains haystack []"
  by (simp add: contains_iff_sublist)

lemma lower_Nil: "lower [] = []"
  by (simp add: lower_def)

subsection \<open>Sorting and slicing\<close>

lemma sort_reverse_mset: "mset (sort_reverse key xs) = mset xs"
  by (simp add: sort_reverse_def)

lemma sort_reverse_set: "set (sort_reverse key xs) = set xs"
  by (simp add: sort_reverse_def)

lemma sort_reverse_length: "length (sort_reverse key xs) = length xs"
  by (simp add: sort_reverse_def)

lemma sort_reverse_sorted: "sorted_wrt (\<lambda>x y. key y \<le> key x) (sort_reverse key xs)"
proof -
  have "sorted (map (\<lambda>x. - key x) (sort_reverse key xs))"
    unfolding sort_reverse_def by (rule sorted_sort_key)
  then show ?thesis by (simp add: sorted_map)
qed

lemma sort_reverse_stable:
  "filter (\<lambda>x. key x = v) (sort_reverse key xs) = filter (\<lambda>x. key x = v) xs"
  using sort_key_stable [of "\<lambda>x. - key x" "- v" xs] by (simp add: sort_reverse_def)

lemma slice_to_nonneg: "0 \<le> stop \<Longrightarrow> slice_to xs stop = take (nat stop) xs"
  by (simp add: slice_to_def)

lemma slice_to_length:
  "length (slice_to xs stop) =
     (if 0 \<le> stop then min (length xs) (nat stop) else nat (int (length xs) + stop))"
  by (simp add: slice_to_def)

lemma slice_to_set: "set (slice_to xs stop) \<subseteq> set xs"
  by (simp add: slice_to_def set_take_subset)

lemma slice_to_sorted: "sorted_wrt P xs \<Longrightarrow> sorted_wrt P (slice_to xs stop)"
  by (simp add: slice_to_def sorted_wrt_take)

section \<open>The opportunity score\<close>






section \<open>Search\<close>

lemma search_keywords_world: "snd (search_keywords w seed_keyword limit) = w"
  by (simp add: search_keywords_def Let_def)

lemma search_keywords_empty_seed:
  "fst (search_keywords w [] limit) = slice_to (sort_reverse search_volume (keyword_database w)) limit"
  by (simp add: search_keywords_def Let_def lower_Nil contains_empty)

lemma search_keywords_empty_seed_length:
  "length (fst (search_keywords w [] limit)) =
     (if 0 \<le> limit then min (length (keyword_database w)) (nat limit)
      else nat (int (length (keyword_database w)) + limit))"
  by (simp add: search_keywords_empty_seed slice_to_length sort_reverse_length)

section \<open>The keyword store\<close>

lemma mock_keyword_fields:
  "keyword (fst (mock_keyword base variation g)) = variation"
  "category (fst (mock_keyword base variation g)) = replace base CHR '' '' CHR ''_''"
  by (simp_all add: mock_keyword_def case_prod_beta)

lemma mock_keyword_numbers:
  "100 \<le> search_volume (fst (mock_keyword base variation g))
   \<and> search_volume (fst (mock_keyword base variation g)) \<le> 50000
   \<and> 1 \<le> difficulty (fst (mock_keyword base variation g))
   \<and> difficulty (fst (mock_keyword base variation g)) \<le> 100
   \<and> 1 / 2 \<le> cpc (fst (mock_keyword base variation g))
   \<and> cpc (fst (mock_keyword base variation g)) \<le> 15
   \<and> (\<exists>n::int. cpc (fst (mock_keyword base variation g)) = of_int n / 100)"
proof -
  let ?g1 = "snd (randint 100 50000 g)"
  let ?g2 = "snd (randint 1 100 ?g1)"
  let ?u = "fst (uniform (1 / 2) 15 ?g2)"
  have sv: "100 \<le> fst (randint 100 50000 g) \<and> fst (randint 100 50000 g) \<le> 50000"
    by (rule randint_range) simp
  have d: "1 \<le> fst (randint 1 100 ?g1) \<and> fst (randint 1 100 ?g1) \<le> 100"
    by (rule randint_range) simp
  have "1 / 2 \<le> ?u \<and> ?u \<le> 15" by (rule uniform_range) simp
  then have "of_int 50 / 10 ^ 2 \<le> ?u" "?u \<le> of_int 1500 / 10 ^ 2" by simp_all
  then have "of_int 50 / 10 ^ 2 \<le> py_round ?u 2 \<and> py_round ?u 2 \<le> of_int 1500 / 10 ^ 2"
    by (rule py_round_bounds)
  then have c: "1 / 2 \<le> py_round ?u 2 \<and> py_round ?u 2 \<le> 15" by simp
  have m: "\<exists>n::int. py_round ?u 2 = of_int n / 100"
    using py_round_multiple [of ?u 2] by simp
  show ?thesis using sv d c m by (simp add: mock_keyword_def case_prod_beta)
qed

lemma mock_keyword_labels:
  "competition (fst (mock_keyword base variation g)) \<in> {''Low'', ''Medium'', ''High''}
   \<and> trend (fst (mock_keyword base variation g)) \<in> {''Rising'', ''Stable'', ''Declining''}"
proof -
  have "fst (choice [''Low'', ''Medium'', ''High''] g3) \<in> set [''Low'', ''Medium'', ''High'']" for g3
    by (rule choice_mem) simp
  moreover have "fst (choice [''Rising'', ''Stable'', ''Declining''] g4)
      \<in> set [''Rising'', ''Stable'', ''Declining'']" for g4
    by (rule choice_mem) simp
  ultimately show ?thesis by (simp add: mock_keyword_def case_prod_beta)
qed

lemma for_variation_keywords: "map keyword (fst (for_variation base vs g)) = vs"
  by (induction vs arbitrary: g) (simp_all add: case_prod_beta mock_keyword_fields)

lemma for_variation_categories:
  "map category (fst (for_variation base vs g)) = replicate (length vs) (replace base CHR '' '' CHR ''_'')"
  by (induction vs arbitrary: g) (simp_all add: case_prod_beta mock_keyword_fields)

lemma for_variation_all:
  assumes "\<And>variation g. variation \<in> set vs \<Longrightarrow> P (fst (mock_keyword base variation g))"
  shows "\<forall>kw \<in> set (fst (for_variation base vs g)). P kw"
  using assms by (induction vs arbitrary: g) (simp_all add: case_prod_beta)

lemma for_base_keywords: "map keyword (fst (for_base bs g)) = concat (map variations bs)"
  by (induction bs arbitrary: g) (simp_all add: case_prod_beta for_variation_keywords)

lemma length_variations: "length (variations base) = 10"
  by (simp add: variations_def)

lemma for_base_categories:
  "map category (fst (for_base bs g))
     = concat (map (\<lambda>base. replicate 10 (replace base CHR '' '' CHR ''_'')) bs)"
  by (induction bs arbitrary: g)
    (simp_all add: case_prod_beta for_variation_categories length_variations)

lemma for_base_length: "length (fst (for_base bs g)) = 10 * length bs"
proof -
  have "length (map keyword (fst (for_base bs g))) = 10 * length bs"
    unfolding for_base_keywords
    by (induction bs) (simp_all add: length_variations)
  then show ?thesis by simp
qed

lemma for_base_all:
  assumes "\<And>base variation g. base \<in> set bs \<Longrightarrow> variation \<in> set (variations base)
             \<Longrightarrow> P (fst (mock_keyword base variation g))"
  shows "\<forall>kw \<in> set (fst (for_base bs g)). P kw"
  using assms
proof (induction bs arbitrary: g)
  case Nil
  then show ?case by simp
next
  case (Cons base bs)
  have "\<forall>kw \<in> set (fst (for_variation base (variations base) g)). P kw"
    by (rule for_variation_all) (simp add: Cons.prems)
  moreover have "\<forall>kw \<in> set (fst (for_base bs (snd (for_variation base (variations base) g)))). P kw"
    by (rule Cons.IH) (simp add: Cons.prems)
  ultimately show ?case by (auto simp add: case_prod_beta)
qed

lemma keyword_database_init: "keyword_database (init g) = fst (for_base base_keywords g)"
  by (simp add: init_def generate_mock_keywords_def case_prod_beta)

lemma length_keyword_database_init: "length (keyword_database (init g)) = 160"
  by (simp add: keyword_database_init for_base_length) (simp add: base_keywords_def)

lemma variation_nonempty: "variation \<in> set (variations base) \<Longrightarrow> variation \<noteq> []"
  by (auto simp add: variations_def)

lemma for_variation_first:
  "fst (for_variation base (variation # rest) g) ! 0 = fst (mock_keyword base variation g)"
  by (simp add: case_prod_beta)

lemma for_base_first:
  "fst (for_base (base # rest) g) ! 0 = fst (mock_keyword base (base @ '' tools'') g)"
proof -
  obtain vs where vs: "variations base = (base @ '' tools'') # vs"
    by (simp add: variations_def)
  have "fst (for_base (base # rest) g) ! 0 = fst (for_variation base (variations base) g) ! 0"
    by (simp add: case_prod_beta vs nth_append)
  then show ?thesis by (simp only: vs for_variation_first)
qed

lemma first_of_keyword_database_init:
  "keyword_database (init g) ! 0
     = fst (mock_keyword ''digital marketing'' ''digital marketing tools'' g)"
proof -
  obtain rest where "base_keywords = ''digital marketing'' # rest"
    by (simp add: base_keywords_def)
  then show ?thesis using for_base_first [of "''digital marketing''" rest g]
    by (simp add: keyword_database_init)
qed

lemma mock_keyword_sample:
  "fst (mock_keyword ''digital marketing'' ''digital marketing tools'' sample_rng)
     = \<lparr>keyword = ''digital marketing tools'', search_volume = 113, difficulty = 33,
        cpc = 1 / 2, competition = ''Medium'', trend = ''Rising'',
        category = ''digital_marketing''\<rparr>"
  by code_simp

text \<open>
  Claim C6. Whatever the random draws, the store built at startup has exactly 160
  records: the ten variations of each of the sixteen base topics, in order. Every record
  has a non-empty keyword, a search volume from 100 to 50000, a difficulty from 1 to 100,
  a cost per click from 0.5 to 15 that is a multiple of 0.01, a competition among Low,
  Medium and High, a trend among Rising, Stable and Declining, and as its category the
  base topic of its keyword with every space replaced by an underscore.
\<close>

theorem keyword_store_invariant:
  "length (keyword_database (init g)) = 160
   \<and> length base_keywords = 16
   \<and> (\<forall>base. length (variations base) = 10)
   \<and> map keyword (keyword_database (init g)) = concat (map variations base_keywords)
   \<and> map category (keyword_database (init g))
       = concat (map (replicate 10)
           [''digital_marketing'', ''seo_optimization'', ''content_marketing'', ''social_media'',
            ''web_development'', ''python_programming'', ''data_science'', ''machine_learning'',
            ''artificial_intelligence'', ''cloud_computing'', ''cybersecurity'', ''blockchain'',
            ''e-commerce'', ''online_business'', ''startup'', ''entrepreneurship''])
   \<and> (\<forall>kw \<in> set (keyword_database (init g)).
         keyword kw \<noteq> []
         \<and> 100 \<le> search_volume kw \<and> search_volume kw \<le> 50000
         \<and> 1 \<le> difficulty kw \<and> difficulty kw \<le> 100
         \<and> 1 / 2 \<le> cpc kw \<and> cpc kw \<le> 15 \<and> (\<exists>n::int. cpc kw = of_int n / 100)
         \<and> competition kw \<in> {''Low'', ''Medium'', ''High''}
         \<and> trend kw \<in> {''Rising'', ''Stable'', ''Declining''}
         \<and> (\<exists>base \<in> set base_keywords.
               keyword kw \<in> set (variations base)
               \<and> category kw = replace base CHR '' '' CHR ''_''))"
proof -
  have bases: "length base_keywords = 16" by (simp add: base_keywords_def)
  have kws: "map keyword (keyword_database (init g)) = concat (map variations base_keywords)"
    by (simp add: keyword_database_init for_base_keywords)
  have cats: "map category (keyword_database (init g))
       = concat (map (replicate 10)
           [''digital_marketing'', ''seo_optimization'', ''content_marketing'', ''social_media'',
            ''web_development'', ''python_programming'', ''data_science'', ''machine_learning'',
            ''artificial_intelligence'', ''cloud_computing'', ''cybersecurity'', ''blockchain'',
            ''e-commerce'', ''online_business'', ''startup'', ''entrepreneurship''])"
    unfolding keyword_database_init for_base_categories
    by (simp add: base_keywords_def replace_def)
  have records: "\<forall>kw \<in> set (keyword_database (init g)).
         keyword kw \<noteq> []
         \<and> 100 \<le> search_volume kw \<and> search_volume kw \<le> 50000
         \<and> 1 \<le> difficulty kw \<and> difficulty kw \<le> 100
         \<and> 1 / 2 \<le> cpc kw \<and> cpc kw \<le> 15 \<and> (\<exists>n::int. cpc kw = of_int n / 100)
         \<and> competition kw \<in> {''Low'', ''Medium'', ''High''}
         \<and> trend kw \<in> {''Rising'', ''Stable'', ''Declining''}
         \<and> (\<exists>base \<in> set base_keywords.
               keyword kw \<in> set (variations base)
               \<and> category kw = replace base CHR '' '' CHR ''_'')"
    unfolding keyword_database_init
  proof (rule for_base_all)
    fix base variation g'
    assume b: "base \<in> set base_keywords" and v: "variation \<in> set (variations base)"
    let ?kw = "fst (mock_keyword base variation g')"
    have "keyword ?kw \<noteq> []"
      using v by (simp add: mock_keyword_fields variation_nonempty)
    moreover have "\<exists>base \<in> set base_keywords.
               keyword ?kw \<in> set (variations base)
               \<and> category ?kw = replace base CHR '' '' CHR ''_''"
      using b v by (auto simp add: mock_keyword_fields)
    ultimately show "keyword ?kw \<noteq> []
         \<and> 100 \<le> search_volume ?kw \<and> search_volume ?kw \<le> 50000
         \<and> 1 \<le> difficulty ?kw \<and> difficulty ?kw \<le> 100
         \<and> 1 / 2 \<le> cpc ?kw \<and> cpc ?kw \<le> 15 \<and> (\<exists>n::int. cpc ?kw = of_int n / 100)
         \<and> competition ?kw \<in> {''Low'', ''Medium'', ''High''}
         \<and> trend ?kw \<in> {''Rising'', ''Stable'', ''Declining''}
         \<and> (\<exists>base \<in> set base_keywords.
               keyword ?kw \<in> set (variations base)
               \<and> category ?kw = replace base CHR '' '' CHR ''_'')"
      using mock_keyword_numbers [of base variation g'] mock_keyword_labels [of base variation g']
      by blast
  qed
  show ?thesis
    using length_keyword_database_init [of g] bases length_variations kws cats records
    by blast
qed

theorem keyword_store_invariant_witness:
  "keyword_database (init sample_rng) ! 0 \<in> set (keyword_database (init sample_rng))
   \<and> keyword_database (init sample_rng) ! 0
       = \<lparr>keyword = ''digital marketing tools'', search_volume = 113, difficulty = 33,
          cpc = 1 / 2, competition = ''Medium'', trend = ''Rising'',
          category = ''digital_marketing''\<rparr>
   \<and> ''digital marketing'' \<in> set base_keywords
   \<and> ''digital marketing tools'' \<in> set (variations ''digital marketing'')
   \<and> replace ''digital marketing'' CHR '' '' CHR ''_'' = ''digital_marketing''
   \<and> 100 \<le> search_volume (keyword_database (init sample_rng) ! 0)
   \<and> cpc (keyword_database (init sample_rng) ! 0) \<le> 15"
proof -
  note inv = keyword_store_invariant [of sample_rng]
  have mem: "keyword_database (init sample_rng) ! 0 \<in> set (keyword_database (init sample_rng))"
    using inv by (intro nth_mem) simp
  have val: "keyword_database (init sample_rng) ! 0
       = \<lparr>keyword = ''digital marketing tools'', search_volume = 113, difficulty = 33,
          cpc = 1 / 2, competition = ''Medium'', trend = ''Rising'',
          category = ''digital_marketing''\<rparr>"
    by (simp add: first_of_keyword_database_init mock_keyword_sample)
  have names: "''digital marketing'' \<in> set base_keywords"
    "''digital marketing tools'' \<in> set (variations ''digital marketing'')"
    "replace ''digital marketing'' CHR '' '' CHR ''_'' = ''digital_marketing''"
    by (simp_all add: base_keywords_def variations_def replace_def)
  from inv mem have "100 \<le> search_volume (keyword_database (init sample_rng) ! 0)
    \<and> cpc (keyword_database (init sample_rng) ! 0) \<le> 15"
    by blast
  with mem val names show ?thesis by blast
qed

lemma search_keywords_sample:
  "fst (search_keywords sample_world ''SEO'' 2) = [sample_database ! 1, sample_database ! 0]"
  "fst (search_keywords sample_world ''SEO'' 50)
     = [sample_database ! 1, sample_database ! 0, sample_database ! 2]"
  "fst (search_keywords sample_world ''SEO'' (- 1)) = [sample_database ! 1, sample_database ! 0]"
  by code_simp+

lemma search_keywords_length_le:
  "0 \<le> limit \<Longrightarrow> length (fst (search_keywords w seed_keyword limit)) \<le> nat limit"
  by (simp add: search_keywords_def Let_def slice_to_length)

text \<open>
  Claim C2, amended: for every seed and every limit that is not negative, the result of
  a search is the first \<open>limit\<close> entries of a list that holds exactly the records of
  the store whose lowercased keyword contains the lowercased seed, in descending order of
  search volume, records of equal search volume in the order they have in the store. On
  the store built at startup, the empty seed gives \<open>min 160 limit\<close> records.
\<close>

theorem search_keywords_result:
  "0 \<le> limit \<Longrightarrow>
   (\<exists>results.
      fst (search_keywords w seed_keyword limit) = take (nat limit) results
      \<and> mset results
          = mset (filter (\<lambda>kw. contains (lower (keyword kw)) (lower seed_keyword))
                    (keyword_database w))
      \<and> (\<forall>kw. kw \<in> set results \<longleftrightarrow>
            kw \<in> set (keyword_database w)
            \<and> (\<exists>ps ss. lower (keyword kw) = ps @ lower seed_keyword @ ss))
      \<and> sorted_wrt (\<lambda>kw kw'. search_volume kw' \<le> search_volume kw) results
      \<and> (\<forall>v. filter (\<lambda>kw. search_volume kw = v) results
             = filter (\<lambda>kw. search_volume kw = v)
                 (filter (\<lambda>kw. contains (lower (keyword kw)) (lower seed_keyword))
                    (keyword_database w))))
   \<and> length (fst (search_keywords (init g) [] limit)) = nat (min 160 limit)"
proof -
  assume limit: "0 \<le> limit"
  let ?matches = "filter (\<lambda>kw. contains (lower (keyword kw)) (lower seed_keyword))
                    (keyword_database w)"
  let ?results = "sort_reverse search_volume ?matches"
  have "fst (search_keywords w seed_keyword limit) = take (nat limit) ?results"
    using limit by (simp add: search_keywords_def Let_def slice_to_nonneg)
  moreover have "mset ?results = mset ?matches" by (rule sort_reverse_mset)
  moreover have "\<forall>kw. kw \<in> set ?results \<longleftrightarrow>
            kw \<in> set (keyword_database w)
            \<and> (\<exists>ps ss. lower (keyword kw) = ps @ lower seed_keyword @ ss)"
    by (simp add: sort_reverse_set contains_iff)
  moreover have "sorted_wrt (\<lambda>kw kw'. search_volume kw' \<le> search_volume kw) ?results"
    by (rule sort_reverse_sorted)
  moreover have "\<forall>v. filter (\<lambda>kw. search_volume kw = v) ?results
             = filter (\<lambda>kw. search_volume kw = v) ?matches"
    by (simp add: sort_reverse_stable)
  moreover have "length (fst (search_keywords (init g) [] limit)) = nat (min 160 limit)"
    using limit by (simp add: search_keywords_empty_seed_length length_keyword_database_init)
  ultimately show ?thesis by blast
qed

theorem search_keywords_result_witness:
  "fst (search_keywords sample_world ''SEO'' 2) = take (nat 2) [sample_database ! 1, sample_database ! 0, sample_database ! 2]
   \<and> map keyword [sample_database ! 1, sample_database ! 0, sample_database ! 2]
       = [''SEO Tools'', ''seo tips'', ''best seo'']
   \<and> map search_volume [sample_database ! 1, sample_database ! 0, sample_database ! 2]
       = [9000, 3000, 3000]
   \<and> length (fst (search_keywords (init sample_rng) [] 2)) = 2"
proof -
  have "(0::int) \<le> 2" by simp
  from search_keywords_result [OF this, of sample_world "''SEO''" sample_rng]
  have "length (fst (search_keywords (init sample_rng) [] 2)) = 2" by simp
  then show ?thesis by (simp add: search_keywords_sample) (simp add: sample_database_def)
qed

theorem search_keywords_negative_limit:
  "length (fst (search_keywords (init sample_rng) [] (- 1))) = 159
   \<and> int (length (fst (search_keywords (init sample_rng) [] (- 1)))) \<noteq> min 160 (- 1)
   \<and> fst (search_keywords sample_world ''SEO'' (- 1)) = [sample_database ! 1, sample_database ! 0]
   \<and> fst (search_keywords sample_world ''SEO'' (- 1)) \<noteq> take (nat (- 1)) (fst (search_keywords sample_world ''SEO'' 50))"
  by (simp add: search_keywords_empty_seed_length length_keyword_database_init search_keywords_sample)

section \<open>The route\<close>

text \<open>
  Claim C10. The handler of \<open>POST /search\<close> never returns more than 50 records. For
  every body that gives a string as the seed, whatever else the body holds, it returns
  what the search returns for the limit 50; on the store built at startup the empty seed
  matches all 160 records and 50 of them are returned.
\<close>

theorem search_route_limit:
  "(\<forall>keywords. fst (search_keywords_route w data) = Inr keywords \<longrightarrow> length keywords \<le> 50)
   \<and> (\<forall>seed_keyword. json_get data ''seed_keyword'' (JString []) = Inr (JString seed_keyword)
        \<longrightarrow> search_keywords_route w data = (Inr (fst (search_keywords w seed_keyword 50)), w))
   \<and> length (filter (\<lambda>kw. contains (lower (keyword kw)) (lower []))
               (keyword_database (init g))) = 160
   \<and> (\<exists>keywords. fst (search_keywords_route (init g) (JObject [(''seed_keyword'', JString [])]))
          = Inr keywords \<and> length keywords = 50)"
proof -
  have le: "length (fst (search_keywords w seed_keyword 50)) \<le> 50" for seed_keyword
    using search_keywords_length_le [of 50 w seed_keyword] by simp
  have 1: "\<forall>keywords. fst (search_keywords_route w data) = Inr keywords \<longrightarrow> length keywords \<le> 50"
    using le
    by (auto simp add: search_keywords_route_def case_prod_beta
        split: sum.splits json.splits if_splits)
  have 2: "\<forall>seed_keyword. json_get data ''seed_keyword'' (JString []) = Inr (JString seed_keyword)
        \<longrightarrow> search_keywords_route w data = (Inr (fst (search_keywords w seed_keyword 50)), w)"
    by (simp add: search_keywords_route_def case_prod_beta search_keywords_world)
  have 3: "length (filter (\<lambda>kw. contains (lower (keyword kw)) (lower []))
               (keyword_database (init g))) = 160"
    by (simp add: lower_Nil contains_empty length_keyword_database_init)
  have 4: "\<exists>keywords. fst (search_keywords_route (init g) (JObject [(''seed_keyword'', JString [])]))
          = Inr keywords \<and> length keywords = 50"
    by (simp add: search_keywords_route_def json_get_def case_prod_beta
        search_keywords_empty_seed_length length_keyword_database_init)
  from 1 2 3 4 show ?thesis by blast
qed

theorem search_route_limit_witness:
  "json_get (JObject [(''seed_keyword'', JString ''SEO''), (''limit'', JNumber 160)])
       ''seed_keyword'' (JString []) = Inr (JString ''SEO'')
   \<and> search_keywords_route sample_world
        (JObject [(''seed_keyword'', JString ''SEO''), (''limit'', JNumber 160)])
       = (Inr [sample_database ! 1, sample_database ! 0, sample_database ! 2], sample_world)
   \<and> length [sample_database ! 1, sample_database ! 0, sample_database ! 2] \<le> 50"
proof -
  let ?data = "JObject [(''seed_keyword'', JString ''SEO''), (''limit'', JNumber 160)]"
  have get: "json_get ?data ''seed_keyword'' (JString []) = Inr (JString ''SEO'')"
    by (simp add: json_get_def)
  with search_route_limit [of sample_world ?data]
  have "search_keywords_route sample_world ?data
          = (Inr (fst (search_keywords sample_world ''SEO'' 50)), sample_world)"
    by blast
  with get show ?thesis by (simp add: search_keywords_sample)
qed

end
